theory Spec2Isabelle
  imports Complex_Main
begin

section \<open>CentriPy: shapes, composite centroid, construction and deletion\<close>

text \<open>
  A shallow embedding of \<^verbatim>\<open>centripy.py\<close>. Python numbers are modelled as exact reals:
  rounding of IEEE doubles is not part of the model, so every arithmetic statement below
  is a statement about the formulas of the source evaluated over \<open>real\<close>. Drawing on the
  Tk canvas, file dialogs and message boxes are outside the model; what a handler does to
  the fields of \<^verbatim>\<open>CentroidApp\<close> is kept, as explicit state passing.
\<close>

subsection \<open>Coordinate mapper\<close>

definition CANVAS_WIDTH :: real where
  "CANVAS_WIDTH = 800"

definition CANVAS_HEIGHT :: real where
  "CANVAS_HEIGHT = 600"


definition to_math_coords :: "real \<Rightarrow> real \<Rightarrow> real \<times> real" where
  "to_math_coords cx cy =
     (let x = cx - (CANVAS_WIDTH / 2);
          y = (CANVAS_HEIGHT / 2) - cy
      in (x, y))"

subsection \<open>Shape model\<close>

text \<open>
  The seven subclasses of \<^verbatim>\<open>Shape\<close>, each with the fields its \<^verbatim>\<open>__init__\<close> stores.
  No constructor of the source checks its arguments.
\<close>

datatype shape =
    LineShape real real real real
  | RectangleShape real real real real
  | CircleShape real real real
  | TriangleShape real real real real real real
  | HalfCircleShape real real real
  | QuarterCircleShape real real real
  | PolygonShape "(real \<times> real) list"

datatype error = ValueError | TypeError | OverflowError

text \<open>
  The loop body shared by \<^verbatim>\<open>PolygonShape.calculate_area\<close> and
  \<^verbatim>\<open>PolygonShape.calculate_centroid\<close>: the points at \<open>i\<close> and \<open>(i + 1) % n\<close>.
  Both indices are below \<open>n\<close> for every \<open>i\<close> of \<open>range(n)\<close>.
\<close>

definition edge :: "(real \<times> real) list \<Rightarrow> nat \<Rightarrow> (real \<times> real) \<times> (real \<times> real)" where
  "edge points i = (points ! i, points ! ((i + 1) mod length points))"

definition cross :: "(real \<times> real) list \<Rightarrow> nat \<Rightarrow> real" where
  "cross points i = (case edge points i of ((x1, y1), (x2, y2)) \<Rightarrow> x1 * y2 - x2 * y1)"

definition polygon_area :: "(real \<times> real) list \<Rightarrow> real" where
  "polygon_area points =
     \<bar>fold (\<lambda>i area. area + cross points i) [0 ..< length points] 0\<bar> / 2"

definition polygon_centroid :: "(real \<times> real) list \<Rightarrow> real \<times> real" where
  "polygon_centroid points =
     (let A = polygon_area points in
      if \<bar>A\<bar> < 1 / 10 ^ 12 then (0, 0)
      else
        (case fold (\<lambda>i (cx, cy).
                 (case edge points i of ((x1, y1), (x2, y2)) \<Rightarrow>
                    (cx + (x1 + x2) * cross points i, cy + (y1 + y2) * cross points i)))
               [0 ..< length points] (0, 0)
         of (cx, cy) \<Rightarrow> (cx / (6 * A), cy / (6 * A))))"

fun calculate_area :: "shape \<Rightarrow> real" where
  "calculate_area (LineShape x1 y1 x2 y2) = 0"
| "calculate_area (RectangleShape x1 y1 x2 y2) = \<bar>x2 - x1\<bar> * \<bar>y2 - y1\<bar>"
| "calculate_area (CircleShape cx cy r) = pi * (r ^ 2)"
| "calculate_area (TriangleShape x1 y1 x2 y2 x3 y3) =
     \<bar>(x1 * (y2 - y3) + x2 * (y3 - y1) + x3 * (y1 - y2)) / 2\<bar>"
| "calculate_area (HalfCircleShape cx cy r) = 0.5 * pi * (r ^ 2)"
| "calculate_area (QuarterCircleShape cx cy r) = 0.25 * pi * (r ^ 2)"
| "calculate_area (PolygonShape points) = polygon_area points"

fun calculate_centroid :: "shape \<Rightarrow> real \<times> real" where
  "calculate_centroid (LineShape x1 y1 x2 y2) = ((x1 + x2) / 2, (y1 + y2) / 2)"
| "calculate_centroid (RectangleShape x1 y1 x2 y2) = ((x1 + x2) / 2, (y1 + y2) / 2)"
| "calculate_centroid (CircleShape cx cy r) = (cx, cy)"
| "calculate_centroid (TriangleShape x1 y1 x2 y2 x3 y3) =
     ((x1 + x2 + x3) / 3, (y1 + y2 + y3) / 3)"
| "calculate_centroid (HalfCircleShape cx cy r) =
     (let offset = - r + (4 * r) / (3 * pi) in (cx, cy + offset))"
| "calculate_centroid (QuarterCircleShape cx cy r) =
     (let offset = (4 * r) / (3 * pi) in (cx + offset, cy + offset))"
| "calculate_centroid (PolygonShape points) = polygon_centroid points"

text \<open>
  Python's \<^verbatim>\<open>min\<close> and \<^verbatim>\<open>max\<close> of a list: \<^verbatim>\<open>ValueError\<close> on the empty list.
\<close>

fun py_min :: "real list \<Rightarrow> error + real" where
  "py_min [] = Inl ValueError"
| "py_min (x # xs) = Inr (fold min xs x)"

fun py_max :: "real list \<Rightarrow> error + real" where
  "py_max [] = Inl ValueError"
| "py_max (x # xs) = Inr (fold max xs x)"

type_synonym bbox = "real \<times> real \<times> real \<times> real"

text \<open>
  \<^verbatim>\<open>bounding_box\<close> returns \<open>(xmin, ymin, xmax, ymax)\<close>. For a polygon the four
  extremes are evaluated in the order of the returned tuple; the first to raise decides.
\<close>

fun bounding_box :: "shape \<Rightarrow> error + bbox" where
  "bounding_box (LineShape x1 y1 x2 y2) = Inr (min x1 x2, min y1 y2, max x1 x2, max y1 y2)"
| "bounding_box (RectangleShape x1 y1 x2 y2) =
     Inr (min x1 x2, min y1 y2, max x1 x2, max y1 y2)"
| "bounding_box (CircleShape cx cy r) = Inr (cx - r, cy - r, cx + r, cy + r)"
| "bounding_box (TriangleShape x1 y1 x2 y2 x3 y3) =
     Inr (fold min [x2, x3] x1, fold min [y2, y3] y1, fold max [x2, x3] x1, fold max [y2, y3] y1)"
| "bounding_box (HalfCircleShape cx cy r) = Inr (cx - r, cy - r, cx + r, cy + r)"
| "bounding_box (QuarterCircleShape cx cy r) = Inr (cx - r, cy - r, cx + r, cy + r)"
| "bounding_box (PolygonShape points) =
     (case py_min (map fst points) of Inl e \<Rightarrow> Inl e | Inr xmin \<Rightarrow>
      case py_min (map snd points) of Inl e \<Rightarrow> Inl e | Inr ymin \<Rightarrow>
      case py_max (map fst points) of Inl e \<Rightarrow> Inl e | Inr xmax \<Rightarrow>
      case py_max (map snd points) of Inl e \<Rightarrow> Inl e | Inr ymax \<Rightarrow>
        Inr (xmin, ymin, xmax, ymax))"


subsection \<open>Serialization codec\<close>

text \<open>
  A tagged record is the dictionary \<^verbatim>\<open>{"type": ..., "params": {...}}\<close>. The parameter
  dictionary is an association list from key to value; a value is a number or a list of
  points. A record without one of the two keys is outside the model.
\<close>

datatype jvalue = Num real | Points "(real \<times> real) list"

record tagged =
  shape_type :: string
  params :: "(string \<times> jvalue) list"

fun to_dict :: "shape \<Rightarrow> tagged" where
  "to_dict (LineShape x1 y1 x2 y2) =
     \<lparr>shape_type = ''LineShape'',
      params = [(''x1'', Num x1), (''y1'', Num y1), (''x2'', Num x2), (''y2'', Num y2)]\<rparr>"
| "to_dict (RectangleShape x1 y1 x2 y2) =
     \<lparr>shape_type = ''RectangleShape'',
      params = [(''x1'', Num x1), (''y1'', Num y1), (''x2'', Num x2), (''y2'', Num y2)]\<rparr>"
| "to_dict (CircleShape cx cy r) =
     \<lparr>shape_type = ''CircleShape'',
      params = [(''cx'', Num cx), (''cy'', Num cy), (''r'', Num r)]\<rparr>"
| "to_dict (TriangleShape x1 y1 x2 y2 x3 y3) =
     \<lparr>shape_type = ''TriangleShape'',
      params = [(''x1'', Num x1), (''y1'', Num y1), (''x2'', Num x2), (''y2'', Num y2),
                (''x3'', Num x3), (''y3'', Num y3)]\<rparr>"
| "to_dict (HalfCircleShape cx cy r) =
     \<lparr>shape_type = ''HalfCircleShape'',
      params = [(''cx'', Num cx), (''cy'', Num cy), (''r'', Num r)]\<rparr>"
| "to_dict (QuarterCircleShape cx cy r) =
     \<lparr>shape_type = ''QuarterCircleShape'',
      params = [(''cx'', Num cx), (''cy'', Num cy), (''r'', Num r)]\<rparr>"
| "to_dict (PolygonShape points) =
     \<lparr>shape_type = ''PolygonShape'', params = [(''points'', Points points)]\<rparr>"

text \<open>
  The call \<^verbatim>\<open>C(**params)\<close> binds the dictionary to the named parameters of
  \<^verbatim>\<open>C.__init__\<close>: a missing or an unexpected key is a \<^verbatim>\<open>TypeError\<close>. The result
  lists the values in the order of the parameter names. The fields of a shape are numbers
  in this model (a list of points for \<^verbatim>\<open>points\<close>), so a value of the other kind is
  refused here as well.
\<close>

definition bind_kwargs :: "(string \<times> jvalue) list \<Rightarrow> string list \<Rightarrow> error + jvalue list" where
  "bind_kwargs kw names =
     (if set (map fst kw) = set names
      then (case those (map (map_of kw) names) of
              None \<Rightarrow> Inl TypeError
            | Some vs \<Rightarrow> Inr vs)
      else Inl TypeError)"

fun new_LineShape :: "jvalue list \<Rightarrow> error + shape" where
  "new_LineShape [Num x1, Num y1, Num x2, Num y2] = Inr (LineShape x1 y1 x2 y2)"
| "new_LineShape _ = Inl TypeError"

fun new_RectangleShape :: "jvalue list \<Rightarrow> error + shape" where
  "new_RectangleShape [Num x1, Num y1, Num x2, Num y2] = Inr (RectangleShape x1 y1 x2 y2)"
| "new_RectangleShape _ = Inl TypeError"

fun new_CircleShape :: "jvalue list \<Rightarrow> error + shape" where
  "new_CircleShape [Num cx, Num cy, Num r] = Inr (CircleShape cx cy r)"
| "new_CircleShape _ = Inl TypeError"

fun new_TriangleShape :: "jvalue list \<Rightarrow> error + shape" where
  "new_TriangleShape [Num x1, Num y1, Num x2, Num y2, Num x3, Num y3] =
     Inr (TriangleShape x1 y1 x2 y2 x3 y3)"
| "new_TriangleShape _ = Inl TypeError"

fun new_HalfCircleShape :: "jvalue list \<Rightarrow> error + shape" where
  "new_HalfCircleShape [Num cx, Num cy, Num r] = Inr (HalfCircleShape cx cy r)"
| "new_HalfCircleShape _ = Inl TypeError"

fun new_QuarterCircleShape :: "jvalue list \<Rightarrow> error + shape" where
  "new_QuarterCircleShape [Num cx, Num cy, Num r] = Inr (QuarterCircleShape cx cy r)"
| "new_QuarterCircleShape _ = Inl TypeError"

fun new_PolygonShape :: "jvalue list \<Rightarrow> error + shape" where
  "new_PolygonShape [Points points] = Inr (PolygonShape points)"
| "new_PolygonShape _ = Inl TypeError"

definition construct ::
  "(jvalue list \<Rightarrow> error + shape) \<Rightarrow> string list \<Rightarrow> (string \<times> jvalue) list
     \<Rightarrow> error + shape option" where
  "construct init names kw =
     (case bind_kwargs kw names of
        Inl e \<Rightarrow> Inl e
      | Inr vs \<Rightarrow> (case init vs of Inl e \<Rightarrow> Inl e | Inr s \<Rightarrow> Inr (Some s)))"

text \<open>
  \<^verbatim>\<open>Shape.from_dict\<close>: \<open>Inr None\<close> is the \<^verbatim>\<open>None\<close> returned for a tag that is none
  of the seven class names.
\<close>

definition from_dict :: "tagged \<Rightarrow> error + shape option" where
  "from_dict data =
     (if shape_type data = ''LineShape'' then
        construct new_LineShape [''x1'', ''y1'', ''x2'', ''y2''] (params data)
      else if shape_type data = ''RectangleShape'' then
        construct new_RectangleShape [''x1'', ''y1'', ''x2'', ''y2''] (params data)
      else if shape_type data = ''CircleShape'' then
        construct new_CircleShape [''cx'', ''cy'', ''r''] (params data)
      else if shape_type data = ''TriangleShape'' then
        construct new_TriangleShape [''x1'', ''y1'', ''x2'', ''y2'', ''x3'', ''y3''] (params data)
      else if shape_type data = ''HalfCircleShape'' then
        construct new_HalfCircleShape [''cx'', ''cy'', ''r''] (params data)
      else if shape_type data = ''QuarterCircleShape'' then
        construct new_QuarterCircleShape [''cx'', ''cy'', ''r''] (params data)
      else if shape_type data = ''PolygonShape'' then
        construct new_PolygonShape [''points''] (params data)
      else Inr None)"

text \<open>The seven class names that \<^verbatim>\<open>Shape.from_dict\<close> compares the tag with.\<close>

definition variant_tags :: "string list" where
  "variant_tags =
     [''LineShape'', ''RectangleShape'', ''CircleShape'', ''TriangleShape'',
      ''HalfCircleShape'', ''QuarterCircleShape'', ''PolygonShape'']"

subsection \<open>Application state\<close>

datatype tool = Line | Rectangle | Circle | Triangle | HalfCircle | QuarterCircle

text \<open>
  The fields of \<^verbatim>\<open>CentroidApp\<close>. \<open>current_tool\<close> is one of the six entries of the
  read-only combobox, or \<^verbatim>\<open>None\<close>. \<open>preview_item\<close> records what the dashed preview
  was drawn from. \<open>centroid_label\<close> is the pair shown in the label, \<open>None\<close> for
  \<^verbatim>\<open>(N/A, N/A)\<close>.
\<close>

record app =
  shapes :: "shape list"
  current_tool :: "tool option"
  click_points :: "(real \<times> real) list"
  preview_item :: "(tool \<times> (real \<times> real) \<times> (real \<times> real)) option"
  delete_mode :: bool
  centroid_label :: "(real \<times> real) option"

subsection \<open>Composite centroid\<close>

text \<open>The loop of \<^verbatim>\<open>calculate_composite_centroid\<close> over the three running sums.\<close>

fun accumulate :: "shape list \<Rightarrow> real \<times> real \<times> real \<Rightarrow> real \<times> real \<times> real" where
  "accumulate [] acc = acc"
| "accumulate (s # ss) (total_area, sum_xA, sum_yA) =
     (let A = calculate_area s;
          c = calculate_centroid s
      in accumulate ss (total_area + A, sum_xA + fst c * A, sum_yA + snd c * A))"

definition calculate_composite_centroid :: "shape list \<Rightarrow> (real \<times> real) option" where
  "calculate_composite_centroid ss =
     (if ss = [] then None
      else (case accumulate ss (0, 0, 0) of
              (total_area, sum_xA, sum_yA) \<Rightarrow>
                if \<bar>total_area\<bar> < 1 / 10 ^ 9 then None
                else Some (sum_xA / total_area, sum_yA / total_area)))"

definition redraw_all :: "app \<Rightarrow> app" where
  "redraw_all st = st\<lparr>centroid_label := calculate_composite_centroid (shapes st)\<rparr>"

subsection \<open>Delete mode and mouse events\<close>

definition toggle_delete_mode :: "app \<Rightarrow> app" where
  "toggle_delete_mode st = st\<lparr>delete_mode := \<not> delete_mode st\<rparr>"

definition activate_shape_tool :: "app \<Rightarrow> tool \<Rightarrow> app" where
  "activate_shape_tool st shape_var =
     st\<lparr>current_tool := Some shape_var, click_points := [], preview_item := None,
        delete_mode := False\<rparr>"




definition on_drag :: "app \<Rightarrow> real \<Rightarrow> real \<Rightarrow> app" where
  "on_drag st ex ey =
     (case current_tool st of
        None \<Rightarrow> st
      | Some t \<Rightarrow>
          if t \<notin> {Line, Rectangle, Circle, HalfCircle, QuarterCircle} then st
          else if length (click_points st) < 1 then st
          else st\<lparr>preview_item := Some (t, click_points st ! 0, to_math_coords ex ey)\<rparr>)"

fun needed_points :: "tool \<Rightarrow> nat" where
  "needed_points Line = 2"
| "needed_points Rectangle = 2"
| "needed_points Circle = 2"
| "needed_points Triangle = 3"
| "needed_points HalfCircle = 2"
| "needed_points QuarterCircle = 2"

definition math_dist :: "real \<times> real \<Rightarrow> real \<times> real \<Rightarrow> real" where
  "math_dist p q = sqrt ((fst p - fst q) ^ 2 + (snd p - snd q) ^ 2)"

text \<open>
  The construction branch of \<^verbatim>\<open>on_left_release\<close>. Unpacking \<^verbatim>\<open>self.click_points\<close>
  into two (three) pairs raises \<^verbatim>\<open>ValueError\<close> when the list has another length.
\<close>

fun new_shape :: "tool \<Rightarrow> (real \<times> real) list \<Rightarrow> error + shape" where
  "new_shape Line [(x1, y1), (x2, y2)] = Inr (LineShape x1 y1 x2 y2)"
| "new_shape Rectangle [(x1, y1), (x2, y2)] = Inr (RectangleShape x1 y1 x2 y2)"
| "new_shape Circle [(cx, cy), (rx, ry)] =
     Inr (CircleShape cx cy (math_dist (cx, cy) (rx, ry)))"
| "new_shape HalfCircle [(cx, cy), (rx, ry)] =
     Inr (HalfCircleShape cx cy (math_dist (cx, cy) (rx, ry)))"
| "new_shape QuarterCircle [(cx, cy), (rx, ry)] =
     Inr (QuarterCircleShape cx cy (math_dist (cx, cy) (rx, ry)))"
| "new_shape Triangle [(x1, y1), (x2, y2), (x3, y3)] = Inr (TriangleShape x1 y1 x2 y2 x3 y3)"
| "new_shape _ _ = Inl ValueError"

definition on_left_release :: "app \<Rightarrow> error + app" where
  "on_left_release st =
     (case current_tool st of
        None \<Rightarrow> Inr st
      | Some t \<Rightarrow>
          if length (click_points st) < needed_points t then Inr st
          else (case new_shape t (click_points st) of
                  Inl e \<Rightarrow> Inl e
                | Inr s \<Rightarrow>
                    Inr (redraw_all
                          (st\<lparr>shapes := shapes st @ [s], current_tool := None,
                              click_points := [], preview_item := None\<rparr>))))"

subsection \<open>Import, and the coordinate dialog\<close>






subsection \<open>Properties of the coordinate mapper and of the shape model\<close>



subsection \<open>Serialization round trip\<close>

text \<open>
  Claim C2. Decoding the tagged record that encoding a shape produces gives back the same
  shape, of the same variant and with the same parameter values, for each of the seven
  variants.
\<close>

theorem from_dict_to_dict: "from_dict (to_dict s) = Inr (Some s)"
  by (cases s) (simp_all add: from_dict_def construct_def bind_kwargs_def)

subsection \<open>Composite centroid\<close>

lemma accumulate_sums:
  "accumulate ss (t, sx, sy) =
     (t + sum_list (map calculate_area ss),
      sx + sum_list (map (\<lambda>s. calculate_area s * fst (calculate_centroid s)) ss),
      sy + sum_list (map (\<lambda>s. calculate_area s * snd (calculate_centroid s)) ss))"
  by (induction ss arbitrary: t sx sy) (simp_all add: Let_def algebra_simps)

lemma line_area_sum:
  "\<forall>s \<in> set ss. \<exists>x1 y1 x2 y2. s = LineShape x1 y1 x2 y2 \<Longrightarrow>
     sum_list (map calculate_area ss) = 0"
  by (induction ss) auto

text \<open>
  Claim C1. For a non-empty collection whose total area is at least \<open>1e-9\<close> in absolute
  value, the composite centroid is the pair of the area-weighted sums of the centroid
  coordinates, each divided by the total area. For the empty collection, and whenever the
  total area is below \<open>1e-9\<close> in absolute value, it is not available; a collection of
  Line shapes only is such a case.
\<close>

theorem composite_centroid_spec:
  "(ss \<noteq> [] \<and> 1 / 10 ^ 9 \<le> \<bar>sum_list (map calculate_area ss)\<bar> \<longrightarrow>
      calculate_composite_centroid ss =
        Some (sum_list (map (\<lambda>s. calculate_area s * fst (calculate_centroid s)) ss)
                / sum_list (map calculate_area ss),
              sum_list (map (\<lambda>s. calculate_area s * snd (calculate_centroid s)) ss)
                / sum_list (map calculate_area ss)))
   \<and> (ss = [] \<or> \<bar>sum_list (map calculate_area ss)\<bar> < 1 / 10 ^ 9 \<longrightarrow>
        calculate_composite_centroid ss = None)
   \<and> ((\<forall>s \<in> set ss. \<exists>x1 y1 x2 y2. s = LineShape x1 y1 x2 y2) \<longrightarrow>
        calculate_composite_centroid ss = None)"
proof -
  have a: "accumulate ss (0, 0, 0) =
     (sum_list (map calculate_area ss),
      sum_list (map (\<lambda>s. calculate_area s * fst (calculate_centroid s)) ss),
      sum_list (map (\<lambda>s. calculate_area s * snd (calculate_centroid s)) ss))"
    using accumulate_sums [of ss 0 0 0] by simp
  have l: "(\<forall>s \<in> set ss. \<exists>x1 y1 x2 y2. s = LineShape x1 y1 x2 y2) \<longrightarrow>
        calculate_composite_centroid ss = None"
    using line_area_sum [of ss] by (simp add: calculate_composite_centroid_def a)
  show ?thesis
    using l by (simp add: calculate_composite_centroid_def a)
qed

theorem composite_centroid_spec_witness:
  "calculate_composite_centroid [RectangleShape 0 0 10 10] = Some (5, 5)
   \<and> calculate_composite_centroid [] = None
   \<and> calculate_composite_centroid [LineShape 0 0 3 4, LineShape 1 1 2 2] = None"
  using composite_centroid_spec [of "[RectangleShape 0 0 10 10]"]
        composite_centroid_spec [of "[]"]
        composite_centroid_spec [of "[LineShape 0 0 3 4, LineShape 1 1 2 2]"]
  by simp

subsection \<open>Bounding boxes\<close>










subsection \<open>Interactive construction\<close>

lemma math_dist_nonneg: "0 \<le> math_dist p q"
  by (simp add: math_dist_def)

lemma more_than_two: "2 < length ps \<Longrightarrow> \<exists>a b c r. ps = a # b # c # r"
  by (cases ps; cases "tl ps"; cases "tl (tl ps)") auto

lemma more_than_three: "3 < length ps \<Longrightarrow> \<exists>a b c d r. ps = a # b # c # d # r"
  by (cases ps; cases "tl ps"; cases "tl (tl ps)"; cases "tl (tl (tl ps))") auto

lemma new_shape_too_many:
  assumes "needed_points t < length ps"
  shows "new_shape t ps = Inl ValueError"
proof (cases t)
  case Triangle
  with assms obtain a b c d r where "ps = a # b # c # d # r"
    using more_than_three [of ps] by auto
  with Triangle show ?thesis by (cases a; cases b; cases c; cases d) simp
next
  case Line
  with assms obtain a b c r where "ps = a # b # c # r"
    using more_than_two [of ps] by auto
  with Line show ?thesis by (cases a; cases b; cases c) simp
next
  case Rectangle
  with assms obtain a b c r where "ps = a # b # c # r"
    using more_than_two [of ps] by auto
  with Rectangle show ?thesis by (cases a; cases b; cases c) simp
next
  case Circle
  with assms obtain a b c r where "ps = a # b # c # r"
    using more_than_two [of ps] by auto
  with Circle show ?thesis by (cases a; cases b; cases c) simp
next
  case HalfCircle
  with assms obtain a b c r where "ps = a # b # c # r"
    using more_than_two [of ps] by auto
  with HalfCircle show ?thesis by (cases a; cases b; cases c) simp
next
  case QuarterCircle
  with assms obtain a b c r where "ps = a # b # c # r"
    using more_than_two [of ps] by auto
  with QuarterCircle show ?thesis by (cases a; cases b; cases c) simp
qed


text \<open>
  Claim C7. With a tool active, releasing the button commits exactly when the number of
  accumulated points is the number the tool needs (2, or 3 for Triangle): the shape is
  built from those points, with the distance between the first two points as the radius of
  a Circle, HalfCircle or QuarterCircle, it is appended to the collection, and points,
  preview and tool are cleared. With fewer points nothing changes. With more points than
  needed the handler raises and nothing is committed.
\<close>

theorem commit_on_release:
  assumes "current_tool st = Some t"
  shows "(length (click_points st) = needed_points t \<longrightarrow>
           (\<exists>st' s. on_left_release st = Inr st'
              \<and> s = (let p1 = click_points st ! 0; p2 = click_points st ! 1;
                         p3 = click_points st ! 2 in
                     case t of
                       Line \<Rightarrow> LineShape (fst p1) (snd p1) (fst p2) (snd p2)
                     | Rectangle \<Rightarrow> RectangleShape (fst p1) (snd p1) (fst p2) (snd p2)
                     | Circle \<Rightarrow> CircleShape (fst p1) (snd p1) (math_dist p1 p2)
                     | Triangle \<Rightarrow>
                         TriangleShape (fst p1) (snd p1) (fst p2) (snd p2) (fst p3) (snd p3)
                     | HalfCircle \<Rightarrow> HalfCircleShape (fst p1) (snd p1) (math_dist p1 p2)
                     | QuarterCircle \<Rightarrow>
                         QuarterCircleShape (fst p1) (snd p1) (math_dist p1 p2))
              \<and> shapes st' = shapes st @ [s]
              \<and> click_points st' = [] \<and> preview_item st' = None \<and> current_tool st' = None
              \<and> delete_mode st' = delete_mode st
              \<and> centroid_label st' = calculate_composite_centroid (shapes st @ [s])))
       \<and> (length (click_points st) < needed_points t \<longrightarrow> on_left_release st = Inr st)
       \<and> (needed_points t < length (click_points st) \<longrightarrow> on_left_release st = Inl ValueError)"
proof (intro conjI impI)
  assume len: "length (click_points st) = needed_points t"
  show "\<exists>st' s. on_left_release st = Inr st'
              \<and> s = (let p1 = click_points st ! 0; p2 = click_points st ! 1;
                         p3 = click_points st ! 2 in
                     case t of
                       Line \<Rightarrow> LineShape (fst p1) (snd p1) (fst p2) (snd p2)
                     | Rectangle \<Rightarrow> RectangleShape (fst p1) (snd p1) (fst p2) (snd p2)
                     | Circle \<Rightarrow> CircleShape (fst p1) (snd p1) (math_dist p1 p2)
                     | Triangle \<Rightarrow>
                         TriangleShape (fst p1) (snd p1) (fst p2) (snd p2) (fst p3) (snd p3)
                     | HalfCircle \<Rightarrow> HalfCircleShape (fst p1) (snd p1) (math_dist p1 p2)
                     | QuarterCircle \<Rightarrow>
                         QuarterCircleShape (fst p1) (snd p1) (math_dist p1 p2))
              \<and> shapes st' = shapes st @ [s]
              \<and> click_points st' = [] \<and> preview_item st' = None \<and> current_tool st' = None
              \<and> delete_mode st' = delete_mode st
              \<and> centroid_label st' = calculate_composite_centroid (shapes st @ [s])"
  proof (cases t)
    case Triangle
    with len obtain p1 p2 p3 where "click_points st = [p1, p2, p3]"
      by (auto simp: length_Suc_conv numeral_3_eq_3)
    with Triangle assms show ?thesis
      by (cases p1; cases p2; cases p3) (simp add: on_left_release_def redraw_all_def)
  qed (use len assms in \<open>auto simp: length_Suc_conv numeral_2_eq_2 on_left_release_def redraw_all_def\<close>)
next
  assume "length (click_points st) < needed_points t"
  with assms show "on_left_release st = Inr st"
    by (simp add: on_left_release_def)
next
  assume gt: "needed_points t < length (click_points st)"
  have "new_shape t (click_points st) = Inl ValueError"
    using gt by (rule new_shape_too_many)
  with assms gt show "on_left_release st = Inl ValueError"
    by (simp add: on_left_release_def)
qed

theorem commit_on_release_witness:
  "(\<exists>st'. on_left_release
       \<lparr>shapes = [], current_tool = Some Circle, click_points = [(0, 0), (3, 4)],
        preview_item = Some (Circle, (0, 0), (3, 4)), delete_mode = False,
        centroid_label = None\<rparr> = Inr st'
      \<and> shapes st' = [CircleShape 0 0 5] \<and> click_points st' = []
      \<and> preview_item st' = None \<and> current_tool st' = None)
   \<and> on_left_release
       \<lparr>shapes = [], current_tool = Some Triangle, click_points = [(0, 0), (3, 4)],
        preview_item = None, delete_mode = False, centroid_label = None\<rparr>
     = Inr \<lparr>shapes = [], current_tool = Some Triangle, click_points = [(0, 0), (3, 4)],
        preview_item = None, delete_mode = False, centroid_label = None\<rparr>
   \<and> on_left_release
       \<lparr>shapes = [], current_tool = Some Line, click_points = [(0, 0), (3, 4), (5, 5)],
        preview_item = None, delete_mode = False, centroid_label = None\<rparr>
     = Inl ValueError"
  using commit_on_release [of "\<lparr>shapes = [], current_tool = Some Circle,
        click_points = [(0, 0), (3, 4)], preview_item = Some (Circle, (0, 0), (3, 4)),
        delete_mode = False, centroid_label = None\<rparr>" Circle]
     commit_on_release [of "\<lparr>shapes = [], current_tool = Some Triangle,
        click_points = [(0, 0), (3, 4)],
        preview_item = None, delete_mode = False, centroid_label = None\<rparr>" Triangle]
     commit_on_release [of "\<lparr>shapes = [], current_tool = Some Line,
        click_points = [(0, 0), (3, 4), (5, 5)],
        preview_item = None, delete_mode = False, centroid_label = None\<rparr>" Line]
  by (auto simp: math_dist_def real_sqrt_unique [of 5])

text \<open>
  Claim C10. A Circle, HalfCircle or QuarterCircle committed by releasing the button has
  the distance between the two click points as its radius, which is not negative, and so
  its bounding box is ordered.
\<close>

theorem interactive_circle_radius:
  assumes "current_tool st = Some t"
      and "t \<in> {Circle, HalfCircle, QuarterCircle}"
      and "click_points st = [p1, p2]"
  shows "\<exists>st' s r xmin ymin xmax ymax.
           on_left_release st = Inr st' \<and> shapes st' = shapes st @ [s]
           \<and> r = math_dist p1 p2 \<and> 0 \<le> r
           \<and> s = (case t of Circle \<Rightarrow> CircleShape (fst p1) (snd p1) r
                           | HalfCircle \<Rightarrow> HalfCircleShape (fst p1) (snd p1) r
                           | _ \<Rightarrow> QuarterCircleShape (fst p1) (snd p1) r)
           \<and> bounding_box s = Inr (xmin, ymin, xmax, ymax)
           \<and> xmin \<le> xmax \<and> ymin \<le> ymax"
  using assms math_dist_nonneg [of p1 p2]
  by (cases p1; cases p2) (auto simp: on_left_release_def redraw_all_def)

theorem interactive_circle_radius_witness:
  "\<exists>st' xmin ymin xmax ymax.
     on_left_release
       \<lparr>shapes = [], current_tool = Some HalfCircle, click_points = [(1, 1), (4, 5)],
        preview_item = None, delete_mode = False, centroid_label = None\<rparr> = Inr st'
     \<and> shapes st' = [HalfCircleShape 1 1 (math_dist (1, 1) (4, 5))]
     \<and> 0 \<le> math_dist (1, 1) (4, 5)
     \<and> bounding_box (HalfCircleShape 1 1 (math_dist (1, 1) (4, 5))) = Inr (xmin, ymin, xmax, ymax)
     \<and> xmin \<le> xmax \<and> ymin \<le> ymax"
  using interactive_circle_radius [of "\<lparr>shapes = [], current_tool = Some HalfCircle, click_points = [(1, 1), (4, 5)],
        preview_item = None, delete_mode = False, centroid_label = None\<rparr>" HalfCircle "(1, 1)" "(4, 5)"]
  by simp

subsection \<open>Deletion\<close>










subsection \<open>Import\<close>


lemma construct_not_None: "construct init names kw \<noteq> Inr None"
  by (simp add: construct_def split: sum.split)

lemma from_dict_known:
  "shape_type d \<in> set variant_tags \<Longrightarrow> from_dict d \<noteq> Inr None"
  by (auto simp: from_dict_def variant_tags_def construct_not_None)







subsection \<open>Polygons by coordinates\<close>








end
